theory Spec2Isabelle
  imports Complex_Main "HOL-Library.AList"
begin

section \<open>Values of the credit-agreement assembly pipeline\<close>

text \<open>
  The program under verification is \<^verbatim>\<open>package/lambda_function.py\<close>, the revision of the
  Lambda handler that the specification describes (three templates, the memo-text
  column, the fourteen-column output record).

  A cell of a pandas row, a context value or an argument of a formatter is a \<open>val\<close>:
  \<^item> \<open>NoneV\<close> is Python's \<^verbatim>\<open>None\<close>;
  \<^item> \<open>FloatV x\<close> is a float: \<open>Fin r\<close> is the finite double whose exact value is the
    rational \<open>r\<close>, \<open>PInf\<close> and \<open>NInf\<close> are the infinities and \<open>FNaN\<close> is NaN, which is
    how \<^verbatim>\<open>read_csv\<close> and a left join represent a missing cell;
  \<^item> \<open>IntV i\<close> is an integer cell (numpy.int64 as read from a CSV file);
  \<^item> \<open>StrV s\<close> is a text cell.
  Arithmetic on \<open>Fin\<close> is exact: the rounding of binary64 to 53 bits, its overflow and the
  sign of zero are not part of this model, so a number stands for its exact value.
\<close>

datatype pyfloat = Fin rat | PInf | NInf | FNaN

datatype val = NoneV | FloatV pyfloat | IntV int | StrV string

datatype error =
    KeyError string
  | IndexError
  | ValueError
  | TypeError
  | MergeError
  | ServiceError string
  | RenderError

text \<open>\<^verbatim>\<open>pd.notnull(v)\<close> on a scalar: false for \<^verbatim>\<open>None\<close> and NaN only.\<close>

fun notnull :: "val \<Rightarrow> bool" where
  "notnull NoneV = False"
| "notnull (FloatV FNaN) = False"
| "notnull _ = True"

subsection \<open>Text helpers\<close>

text \<open>
  \<^verbatim>\<open>str.strip()\<close> removes the characters for which \<^verbatim>\<open>str.isspace\<close> holds from both
  ends. Text is modelled as ASCII, where these are the codes 9 to 13, 28 to 32.
\<close>

definition is_space :: "char \<Rightarrow> bool" where
  "is_space c = (let n = (of_char c :: nat) in (9 \<le> n \<and> n \<le> 13) \<or> (28 \<le> n \<and> n \<le> 32))"

definition strip :: "string \<Rightarrow> string" where
  "strip s = rev (dropWhile is_space (rev (dropWhile is_space s)))"

definition is_digit :: "char \<Rightarrow> bool" where
  "is_digit c = (let n = (of_char c :: nat) in 48 \<le> n \<and> n \<le> 57)"

definition digit_val :: "char \<Rightarrow> nat" where
  "digit_val c = of_char c - 48"

definition digit_char :: "nat \<Rightarrow> char" where
  "digit_char d = ''0123456789'' ! (d mod 10)"

text \<open>The decimal digits of a natural number, most significant first.\<close>

fun digits :: "nat \<Rightarrow> string" where
  "digits n = (if n < 10 then [digit_char n] else digits (n div 10) @ [digit_char (n mod 10)])"

declare digits.simps [simp del]

definition lower_char :: "char \<Rightarrow> char" where
  "lower_char c = (let n = (of_char c :: nat) in if 65 \<le> n \<and> n \<le> 90 then char_of (n + 32) else c)"

subsection \<open>\<^verbatim>\<open>float(x)\<close>\<close>

text \<open>
  \<^verbatim>\<open>float\<close> on text follows the grammar of the language reference: surrounding white
  space is stripped, then an optional sign, then \<^verbatim>\<open>inf\<close>, \<^verbatim>\<open>infinity\<close> or \<^verbatim>\<open>nan\<close>
  in any case, or a decimal number with optional fraction and exponent, where single
  underscores may separate digits. Anything else raises \<^verbatim>\<open>ValueError\<close>.
\<close>

definition valid_digitpart :: "string \<Rightarrow> bool" where
  "valid_digitpart s =
     (s \<noteq> [] \<and> is_digit (hd s) \<and> is_digit (last s) \<and>
      (\<forall>c \<in> set s. is_digit c \<or> c = CHR ''_'') \<and>
      (\<forall>i < length s - 1. \<not> (s ! i = CHR ''_'' \<and> s ! Suc i = CHR ''_'')))"

definition digitpart_digits :: "string \<Rightarrow> string" where
  "digitpart_digits s = filter is_digit s"

definition digits_value :: "string \<Rightarrow> nat" where
  "digits_value ds = foldl (\<lambda>a c. 10 * a + digit_val c) 0 ds"

definition parse_mantissa :: "string \<Rightarrow> rat option" where
  "parse_mantissa m =
     (let ip = takeWhile (\<lambda>c. is_digit c \<or> c = CHR ''_'') m;
          rest = dropWhile (\<lambda>c. is_digit c \<or> c = CHR ''_'') m
      in case rest of
           [] \<Rightarrow> if valid_digitpart ip then Some (of_nat (digits_value (digitpart_digits ip))) else None
         | c # fp \<Rightarrow>
             if c \<noteq> CHR ''.'' then None
             else if fp = [] then
               (if valid_digitpart ip then Some (of_nat (digits_value (digitpart_digits ip))) else None)
             else if (ip = [] \<or> valid_digitpart ip) \<and> valid_digitpart fp then
               Some (of_nat (digits_value (digitpart_digits ip)) +
                     of_nat (digits_value (digitpart_digits fp)) / 10 ^ length (digitpart_digits fp))
             else None)"

definition parse_exponent :: "string \<Rightarrow> int option" where
  "parse_exponent e =
     (case e of
        [] \<Rightarrow> None
      | c # r \<Rightarrow>
          if c = CHR ''-'' then
            (if valid_digitpart r then Some (- int (digits_value (digitpart_digits r))) else None)
          else if c = CHR ''+'' then
            (if valid_digitpart r then Some (int (digits_value (digitpart_digits r))) else None)
          else if valid_digitpart e then Some (int (digits_value (digitpart_digits e))) else None)"

definition parse_floatnumber :: "string \<Rightarrow> rat option" where
  "parse_floatnumber t =
     (let m = takeWhile (\<lambda>c. c \<noteq> CHR ''e'' \<and> c \<noteq> CHR ''E'') t;
          rest = dropWhile (\<lambda>c. c \<noteq> CHR ''e'' \<and> c \<noteq> CHR ''E'') t
      in case parse_mantissa m of
           None \<Rightarrow> None
         | Some q \<Rightarrow>
             (case rest of
                [] \<Rightarrow> Some q
              | _ # e \<Rightarrow>
                  (case parse_exponent e of
                     None \<Rightarrow> None
                   | Some k \<Rightarrow> Some (if 0 \<le> k then q * 10 ^ nat k else q / 10 ^ nat (- k)))))"

definition float_of_str :: "string \<Rightarrow> pyfloat option" where
  "float_of_str s0 =
     (let s = strip s0;
          neg = (s \<noteq> [] \<and> hd s = CHR ''-'');
          t = (if s \<noteq> [] \<and> (hd s = CHR ''-'' \<or> hd s = CHR ''+'') then tl s else s);
          lt = map lower_char t
      in if lt = ''inf'' \<or> lt = ''infinity'' then Some (if neg then NInf else PInf)
         else if lt = ''nan'' then Some FNaN
         else (case parse_floatnumber t of
                 None \<Rightarrow> None
               | Some q \<Rightarrow> Some (Fin (if neg then - q else q))))"

fun py_float :: "val \<Rightarrow> error + pyfloat" where
  "py_float NoneV = Inl TypeError"
| "py_float (FloatV x) = Inr x"
| "py_float (IntV i) = Inr (Fin (of_int i))"
| "py_float (StrV s) = (case float_of_str s of None \<Rightarrow> Inl ValueError | Some x \<Rightarrow> Inr x)"

subsection \<open>Fixed-point formatting\<close>

text \<open>
  The format specifications \<^verbatim>\<open>,.2f\<close> and \<^verbatim>\<open>.2f\<close> print a float with two digits after
  the point, correctly rounded from its exact value with ties to the even neighbour; the
  comma groups the integer digits in threes. A negative value keeps its sign even
  when it rounds to zero.
\<close>

definition round_half_even :: "rat \<Rightarrow> int" where
  "round_half_even x =
     (let f = \<lfloor>x\<rfloor>; d = x - of_int f
      in if d < 1 / 2 then f else if 1 / 2 < d then f + 1 else if even f then f else f + 1)"

definition pad3 :: "nat \<Rightarrow> string" where
  "pad3 n = [digit_char (n div 100), digit_char (n div 10), digit_char n]"

fun group3 :: "nat \<Rightarrow> string" where
  "group3 n = (if n < 1000 then digits n else group3 (n div 1000) @ CHR '','' # pad3 (n mod 1000))"

declare group3.simps [simp del]

definition cents :: "rat \<Rightarrow> nat" where
  "cents r = nat (round_half_even (\<bar>r\<bar> * 100))"

definition frac2 :: "nat \<Rightarrow> string" where
  "frac2 n = [digit_char (n div 10), digit_char n]"

fun format_f2 :: "bool \<Rightarrow> pyfloat \<Rightarrow> string" where
  "format_f2 grp (Fin r) =
     (if r < 0 then ''-'' else '''') @
     (if grp then group3 (cents r div 100) else digits (cents r div 100)) @
     ''.'' @ frac2 (cents r mod 100)"
| "format_f2 grp PInf = ''inf''"
| "format_f2 grp NInf = ''-inf''"
| "format_f2 grp FNaN = ''nan''"

text \<open>
  \<^verbatim>\<open>
  def format_currency(val):
      try:
          return f"${float(val):,.2f}" if pd.notnull(val) else "N/A"
      except (ValueError, TypeError):
          return "N/A"
  \<close>
  The handler catches the two exception classes it names and lets any other pass.
\<close>

definition format_currency :: "val \<Rightarrow> error + string" where
  "format_currency v =
     (if notnull v then
        (case py_float v of
           Inr x \<Rightarrow> Inr (''$'' @ format_f2 True x)
         | Inl ValueError \<Rightarrow> Inr ''N/A''
         | Inl TypeError \<Rightarrow> Inr ''N/A''
         | Inl e \<Rightarrow> Inl e)
      else Inr ''N/A'')"

definition format_percentage :: "val \<Rightarrow> error + string" where
  "format_percentage v =
     (if notnull v then
        (case py_float v of
           Inr x \<Rightarrow> Inr (format_f2 False x @ ''%'')
         | Inl ValueError \<Rightarrow> Inr ''N/A''
         | Inl TypeError \<Rightarrow> Inr ''N/A''
         | Inl e \<Rightarrow> Inl e)
      else Inr ''N/A'')"

section \<open>Rows, errors and the collaborators of a run\<close>

text \<open>
  A row of the merged frame pairs each column label with its cell.
  \<^verbatim>\<open>row.get(k, d)\<close> gives the default only when the label is absent; a label that is
  present with a NaN cell gives the NaN. \<^verbatim>\<open>row[k]\<close> raises \<^verbatim>\<open>KeyError\<close> on an
  absent label.
\<close>

type_synonym row = "(string \<times> val) list"

definition row_get :: "row \<Rightarrow> string \<Rightarrow> val \<Rightarrow> val" where
  "row_get r k d = (case map_of r k of None \<Rightarrow> d | Some v \<Rightarrow> v)"

definition row_item :: "row \<Rightarrow> string \<Rightarrow> error + val" where
  "row_item r k = (case map_of r k of None \<Rightarrow> Inl (KeyError k) | Some v \<Rightarrow> Inr v)"

definition ebind :: "error + 'a \<Rightarrow> ('a \<Rightarrow> error + 'b) \<Rightarrow> error + 'b" where
  "ebind m f = (case m of Inl e \<Rightarrow> Inl e | Inr x \<Rightarrow> f x)"

text \<open>A block of a document-analysis response, with the keys the extractor reads.\<close>

record relationship =
  rel_type :: string
  rel_ids :: "string list"

record block =
  block_id :: string
  block_type :: string
  entity_types :: "string list option"
  relationships :: "relationship list option"
  block_text :: "string option"

text \<open>
  The collaborators are the module-level clients and library calls of the source:
  the document analysis of Textract, the model invocation of Bedrock (given the content
  of the user message, it answers with the \<^verbatim>\<open>content\<close> list of the response body,
  when the body has one, each item with its \<^verbatim>\<open>text\<close> when it has one), the rendering
  of a Jinja template, \<^verbatim>\<open>uuid.uuid4\<close>, the date of the run and the \<^verbatim>\<open>str\<close> of a
  finite float. Each service call may raise.
\<close>

record env =
  analyze_document :: "string \<Rightarrow> val \<Rightarrow> error + block list"
  invoke_model :: "string \<Rightarrow> error + string option list option"
  render :: "string \<Rightarrow> (string \<times> val) list \<Rightarrow> error + string"
  uuid4 :: "nat \<Rightarrow> string"
  today :: string
  float_repr :: "rat \<Rightarrow> string"

definition int_str :: "int \<Rightarrow> string" where
  "int_str i = (if i < 0 then ''-'' @ digits (nat (- i)) else digits (nat i))"

text \<open>The text an f-string puts for a value.\<close>

fun py_str :: "(rat \<Rightarrow> string) \<Rightarrow> val \<Rightarrow> string" where
  "py_str fr NoneV = ''None''"
| "py_str fr (FloatV (Fin r)) = fr r"
| "py_str fr (FloatV PInf) = ''inf''"
| "py_str fr (FloatV NInf) = ''-inf''"
| "py_str fr (FloatV FNaN) = ''nan''"
| "py_str fr (IntV i) = int_str i"
| "py_str fr (StrV s) = s"

text \<open>Truth value of a cell in \<^verbatim>\<open>if cam_text:\<close>.\<close>

fun truthy :: "val \<Rightarrow> bool" where
  "truthy NoneV = False"
| "truthy (StrV s) = (s \<noteq> [])"
| "truthy (IntV i) = (i \<noteq> 0)"
| "truthy (FloatV (Fin r)) = (r \<noteq> 0)"
| "truthy (FloatV _) = True"

section \<open>Document Field Extractor\<close>

text \<open>
  \<^verbatim>\<open>
  fields = {}
  blocks = {block['Id']: block for block in response['Blocks']}
  for block in response['Blocks']:
      if block['BlockType'] == 'KEY_VALUE_SET' and 'KEY' in block['EntityTypes']:
          key_text, val_text = '', ''
          val_block_id = next((rel['Ids'][0] for rel in block.get('Relationships', [])
                               if rel['Type'] == 'VALUE'), None)
          if block.get('Relationships'):
              for rel in block['Relationships']:
                  if rel['Type'] == 'CHILD':
                      for cid in rel['Ids']:
                          key_text += next((b['Text'] for b in response['Blocks']
                                            if b['Id'] == cid and 'Text' in b), '')
          if val_block_id:
              val_block = blocks.get(val_block_id)
              if val_block and val_block.get('Relationships'):
                  ... the same loop over the CHILD relationships of val_block ...
          fields[key_text.strip()] = val_text.strip()
  return fields
  \<close>
  The result dictionary is an association list in insertion order: assigning to a label
  that is present replaces its value in place, as a Python dictionary does.
\<close>

definition get_rels :: "block \<Rightarrow> relationship list" where
  "get_rels b = (case relationships b of None \<Rightarrow> [] | Some rs \<Rightarrow> rs)"

definition child_text :: "block list \<Rightarrow> string \<Rightarrow> string" where
  "child_text bs cid =
     (case find (\<lambda>b. block_id b = cid \<and> block_text b \<noteq> None) bs of
        None \<Rightarrow> ''''
      | Some b \<Rightarrow> (case block_text b of None \<Rightarrow> '''' | Some t \<Rightarrow> t))"

definition children_text :: "block list \<Rightarrow> block \<Rightarrow> string" where
  "children_text bs b =
     concat (map (\<lambda>rel. if rel_type rel = ''CHILD'' then concat (map (child_text bs) (rel_ids rel))
                         else '''')
                 (get_rels b))"

definition value_block_id :: "block \<Rightarrow> error + string option" where
  "value_block_id b =
     (case find (\<lambda>rel. rel_type rel = ''VALUE'') (get_rels b) of
        None \<Rightarrow> Inr None
      | Some rel \<Rightarrow> (case rel_ids rel of [] \<Rightarrow> Inl IndexError | i # _ \<Rightarrow> Inr (Some i)))"

definition blocks_get :: "block list \<Rightarrow> string \<Rightarrow> block option" where
  "blocks_get bs i = find (\<lambda>b. block_id b = i) (rev bs)"

definition value_text :: "block list \<Rightarrow> string option \<Rightarrow> string" where
  "value_text bs vid =
     (case vid of
        None \<Rightarrow> ''''
      | Some i \<Rightarrow>
          if i = [] then ''''
          else (case blocks_get bs i of None \<Rightarrow> '''' | Some vb \<Rightarrow> children_text bs vb))"

fun extract_loop ::
  "block list \<Rightarrow> block list \<Rightarrow> (string \<times> string) list \<Rightarrow> error + (string \<times> string) list" where
  "extract_loop bs [] flds = Inr flds"
| "extract_loop bs (b # rest) flds =
     (if block_type b = ''KEY_VALUE_SET'' then
        (case entity_types b of
           None \<Rightarrow> Inl (KeyError ''EntityTypes'')
         | Some ets \<Rightarrow>
             if ''KEY'' \<in> set ets then
               (case value_block_id b of
                  Inl e \<Rightarrow> Inl e
                | Inr vid \<Rightarrow>
                    extract_loop bs rest
                      (AList.update (strip (children_text bs b)) (strip (value_text bs vid)) flds))
             else extract_loop bs rest flds)
      else extract_loop bs rest flds)"

definition extract_from_textract :: "env \<Rightarrow> string \<Rightarrow> val \<Rightarrow> error + (string \<times> string) list" where
  "extract_from_textract ev s3_bucket s3_key =
     (case analyze_document ev s3_bucket s3_key of
        Inl e \<Rightarrow> Inl e
      | Inr bs \<Rightarrow> extract_loop bs bs [])"

text \<open>
  The extractor in the words of the specification: the blocks tagged as a key of a
  key-value set, and for each its label and value, trimmed.
\<close>

definition is_key_block :: "block \<Rightarrow> bool" where
  "is_key_block b =
     (block_type b = ''KEY_VALUE_SET'' \<and>
      (case entity_types b of None \<Rightarrow> False | Some ets \<Rightarrow> ''KEY'' \<in> set ets))"

definition paired_value_id :: "block \<Rightarrow> string option" where
  "paired_value_id b =
     (case find (\<lambda>rel. rel_type rel = ''VALUE'') (get_rels b) of
        None \<Rightarrow> None
      | Some rel \<Rightarrow> (case rel_ids rel of [] \<Rightarrow> None | i # _ \<Rightarrow> Some i))"

definition entry_of :: "block list \<Rightarrow> block \<Rightarrow> string \<times> string" where
  "entry_of bs b = (strip (children_text bs b), strip (value_text bs (paired_value_id b)))"

definition well_formed_response :: "block list \<Rightarrow> bool" where
  "well_formed_response bs =
     list_all (\<lambda>b. (block_type b = ''KEY_VALUE_SET'' \<longrightarrow> entity_types b \<noteq> None) \<and>
                   list_all (\<lambda>rel. rel_type rel = ''VALUE'' \<longrightarrow> rel_ids rel \<noteq> []) (get_rels b)) bs"

section \<open>Narrative Generator\<close>

text \<open>
  \<^verbatim>\<open>
  def generate_approval_conditions(cam_text):
      body = json.dumps({"messages": [{"role": "user", "content":
          f"Review the following CAM and generate approval conditions for a loan:\n\n{cam_text}\n\nApproval Conditions:"}],
          "max_tokens": 300, "temperature": 0.5, "anthropic_version": "bedrock-2023-05-31"})
      response = bedrock_runtime.invoke_model(body=body, ...)
      response_body = json.loads(response['body'].read())
      return response_body['content'][0]['text'].strip() if 'content' in response_body else "N/A"
  \<close>
\<close>

definition prompt_of :: "env \<Rightarrow> val \<Rightarrow> string" where
  "prompt_of ev cam_text =
     ''Review the following CAM and generate approval conditions for a loan:'' @
     [CHR 0x0A, CHR 0x0A] @ py_str (float_repr ev) cam_text @ [CHR 0x0A, CHR 0x0A] @
     ''Approval Conditions:''"

definition generate_approval_conditions :: "env \<Rightarrow> val \<Rightarrow> error + string" where
  "generate_approval_conditions ev cam_text =
     (case invoke_model ev (prompt_of ev cam_text) of
        Inl e \<Rightarrow> Inl e
      | Inr None \<Rightarrow> Inr ''N/A''
      | Inr (Some []) \<Rightarrow> Inl IndexError
      | Inr (Some (None # _)) \<Rightarrow> Inl (KeyError ''text'')
      | Inr (Some (Some t # _)) \<Rightarrow> Inr (strip t))"

section \<open>Template Mapping Resolver\<close>

text \<open>
  A mapping rule is a column to copy or a function of the row (\<^verbatim>\<open>callable(src)\<close>).
  The two functions of the table:
  \<^verbatim>\<open>
  "borrower_address": lambda r: f"{r['address_line1']}, {r['city']}, {r['state']} {r['zip_code']}",
  "down_payment": lambda r: float(r["property_value"]) - float(r["requested_amount"])
      if pd.notnull(r["property_value"]) and pd.notnull(r["requested_amount"]) else "N/A"
  \<close>
\<close>

datatype source = Col string | Fn "row \<Rightarrow> error + val"

definition borrower_address :: "(rat \<Rightarrow> string) \<Rightarrow> row \<Rightarrow> error + val" where
  "borrower_address fr r =
     ebind (row_item r ''address_line1'') (\<lambda>a.
     ebind (row_item r ''city'') (\<lambda>c.
     ebind (row_item r ''state'') (\<lambda>s.
     ebind (row_item r ''zip_code'') (\<lambda>z.
       Inr (StrV (py_str fr a @ '', '' @ py_str fr c @ '', '' @ py_str fr s @ '' '' @ py_str fr z))))))"

fun fsub :: "pyfloat \<Rightarrow> pyfloat \<Rightarrow> pyfloat" where
  "fsub (Fin a) (Fin b) = Fin (a - b)"
| "fsub FNaN _ = FNaN"
| "fsub _ FNaN = FNaN"
| "fsub PInf PInf = FNaN"
| "fsub NInf NInf = FNaN"
| "fsub PInf _ = PInf"
| "fsub NInf _ = NInf"
| "fsub (Fin a) PInf = NInf"
| "fsub (Fin a) NInf = PInf"

definition down_payment :: "row \<Rightarrow> error + val" where
  "down_payment r =
     ebind (row_item r ''property_value'') (\<lambda>pv.
       if notnull pv then
         ebind (row_item r ''requested_amount'') (\<lambda>ra.
           if notnull ra then
             ebind (py_float pv) (\<lambda>x. ebind (py_float ra) (\<lambda>y. Inr (FloatV (fsub x y))))
           else Inr (StrV ''N/A''))
       else Inr (StrV ''N/A''))"

definition template_mappings :: "(rat \<Rightarrow> string) \<Rightarrow> (string \<times> (string \<times> source) list) list" where
  "template_mappings fr =
     [(''TEMPLATE-001'',
        [(''borrower_name'', Col ''full_name''),
         (''loan_amount'', Col ''requested_amount''),
         (''interest_rate'', Col ''recommended_rate''),
         (''loan_term'', Col ''term_years''),
         (''monthly_payment'', Col ''estimated_monthly_payment''),
         (''annual_income'', Col ''annual_income''),
         (''credit_score'', Col ''credit_score''),
         (''ltv_ratio'', Col ''ltv_ratio''),
         (''employment_status'', Col ''employment_status''),
         (''borrower_address'', Fn (borrower_address fr)),
         (''property_address'', Col ''property_address''),
         (''property_value'', Col ''property_value''),
         (''down_payment'', Fn down_payment)]),
      (''TEMPLATE-002'',
        [(''borrower_name'', Col ''full_name''),
         (''loan_amount'', Col ''approved_amount''),
         (''interest_rate'', Col ''final_rate''),
         (''loan_term'', Col ''term_months''),
         (''monthly_payment'', Col ''monthly_installment''),
         (''annual_income'', Col ''annual_income''),
         (''credit_score'', Col ''credit_score''),
         (''loan_purpose'', Col ''loan_purpose'')]),
      (''TEMPLATE-003'',
        [(''borrower_name'', Col ''full_name''),
         (''loan_amount'', Col ''requested_amount''),
         (''interest_rate'', Col ''interest_percent''),
         (''loan_term'', Col ''loan_duration_years''),
         (''monthly_payment'', Col ''monthly_repayment''),
         (''collateral_details'', Col ''collateral_details'')])]"

text \<open>
  \<^verbatim>\<open>template_mappings.get(template_id, {})\<close>; a template id that is not text is the key
  of no entry.
\<close>

definition mapping_of :: "(rat \<Rightarrow> string) \<Rightarrow> val \<Rightarrow> (string \<times> source) list" where
  "mapping_of fr tid =
     (case tid of
        StrV s \<Rightarrow> (case map_of (template_mappings fr) s of None \<Rightarrow> [] | Some m \<Rightarrow> m)
      | _ \<Rightarrow> [])"

type_synonym rendering_context = "(string \<times> val) list"

text \<open>
  \<^verbatim>\<open>context = {field: (src(row) if callable(src) else row.get(src, "N/A"))
             for field, src in mapping.items()}\<close>
\<close>

definition resolve_source :: "row \<Rightarrow> source \<Rightarrow> error + val" where
  "resolve_source r src = (case src of Fn g \<Rightarrow> g r | Col c \<Rightarrow> Inr (row_get r c (StrV ''N/A'')))"

fun build_context :: "row \<Rightarrow> (string \<times> source) list \<Rightarrow> rendering_context \<Rightarrow> error + rendering_context" where
  "build_context r [] ctx = Inr ctx"
| "build_context r ((field, src) # m) ctx =
     ebind (resolve_source r src) (\<lambda>v. build_context r m (AList.update field v ctx))"

text \<open>
  \<^verbatim>\<open>
  for f in ["loan_amount", "monthly_payment", "property_value", "down_payment"]:
      if f in context:
          context[f] = format_currency(context[f])
  for f in ["interest_rate", "ltv_ratio"]:
      if f in context:
          context[f] = format_percentage(context[f])
  \<close>
\<close>

fun apply_format :: "(val \<Rightarrow> error + string) \<Rightarrow> string list \<Rightarrow> rendering_context \<Rightarrow> error + rendering_context" where
  "apply_format fmt [] ctx = Inr ctx"
| "apply_format fmt (f # fs) ctx =
     (case map_of ctx f of
        None \<Rightarrow> apply_format fmt fs ctx
      | Some v \<Rightarrow> ebind (fmt v) (\<lambda>s. apply_format fmt fs (AList.update f (StrV s) ctx)))"

definition currency_fields :: "string list" where
  "currency_fields = [''loan_amount'', ''monthly_payment'', ''property_value'', ''down_payment'']"

definition percentage_fields :: "string list" where
  "percentage_fields = [''interest_rate'', ''ltv_ratio'']"

text \<open>The context of a row after mapping and formatting, before the defaults.\<close>

definition resolve_context :: "(rat \<Rightarrow> string) \<Rightarrow> row \<Rightarrow> val \<Rightarrow> error + rendering_context" where
  "resolve_context fr r tid =
     ebind (build_context r (mapping_of fr tid) []) (\<lambda>c1.
     ebind (apply_format format_currency currency_fields c1) (\<lambda>c2.
       apply_format format_percentage percentage_fields c2))"

definition defaults :: "env \<Rightarrow> (string \<times> val) list" where
  "defaults ev =
     [(''agreement_date'', StrV (today ev)),
      (''lender_name'', StrV ''Citi Private Bank''),
      (''payment_day'', StrV ''1st''),
      (''grace_period'', StrV ''15''),
      (''state_jurisdiction'', StrV ''New York'')]"

text \<open>\<^verbatim>\<open>context.update(defaults)\<close> assigns every default in turn.\<close>

definition dict_update :: "rendering_context \<Rightarrow> (string \<times> val) list \<Rightarrow> rendering_context" where
  "dict_update ctx kvs = fold (\<lambda>kv c. AList.update (fst kv) (snd kv) c) kvs ctx"

section \<open>Document Assembler\<close>

text \<open>
  The calls a run makes to its collaborators, in order. The list is threaded through
  the row loop, so that what was and was not invoked for a row can be stated.
\<close>

datatype call = Extract string val | Generate string | Render string

definition bucket_name :: string where
  "bucket_name = ''cams-input-hackathon-bucket''"

definition sentinel :: string where
  "sentinel = ''Approval conditions not available.''"

definition join_lines :: "string list \<Rightarrow> string" where
  "join_lines ls = (case ls of [] \<Rightarrow> '''' | l # r \<Rightarrow> l @ concat (map (\<lambda>x. CHR 0x0A # x) r))"

definition serialise_fields :: "(string \<times> string) list \<Rightarrow> string" where
  "serialise_fields flds = join_lines (map (\<lambda>kv. fst kv @ '': '' @ snd kv) flds)"

text \<open>
  \<^verbatim>\<open>
  cam_text = None
  if pd.notnull(row.get("cam_content")):
      cam_text = row["cam_content"]
  elif pd.notnull(row.get("cam_s3_key")):
      try:
          textract_fields = extract_from_textract(bucket_name, row["cam_s3_key"])
          cam_text = "\n".join([f"{k}: {v}" for k, v in textract_fields.items()])
      except Exception as e:
          print(...)
  \<close>
  The result is the calls so far and the source text.
\<close>

definition cam_source :: "env \<Rightarrow> row \<Rightarrow> call list \<Rightarrow> call list \<times> val" where
  "cam_source ev r lg =
     (if notnull (row_get r ''cam_content'' NoneV) then (lg, row_get r ''cam_content'' NoneV)
      else if notnull (row_get r ''cam_s3_key'' NoneV) then
        (case extract_from_textract ev bucket_name (row_get r ''cam_s3_key'' NoneV) of
           Inl e \<Rightarrow> (lg @ [Extract bucket_name (row_get r ''cam_s3_key'' NoneV)], NoneV)
         | Inr flds \<Rightarrow>
             (lg @ [Extract bucket_name (row_get r ''cam_s3_key'' NoneV)],
              StrV (serialise_fields flds)))
      else (lg, NoneV))"

text \<open>
  \<^verbatim>\<open>
  if cam_text:
      context["approval_conditions"] = generate_approval_conditions(cam_text)
  else:
      context["approval_conditions"] = "Approval conditions not available."
  \<close>
  The call of the generator stands outside every \<^verbatim>\<open>try\<close>: what it raises leaves the
  row loop.
\<close>

definition narrative :: "env \<Rightarrow> row \<Rightarrow> call list \<Rightarrow> call list \<times> (error + string)" where
  "narrative ev r lg =
     (case cam_source ev r lg of
        (lg1, cam_text) \<Rightarrow>
          if truthy cam_text then
            (lg1 @ [Generate (prompt_of ev cam_text)], generate_approval_conditions ev cam_text)
          else (lg1, Inr sentinel))"

record template =
  template_id :: string
  template_name :: "string option"
  template_content :: string

text \<open>
  \<^verbatim>\<open>template_map = {t["template_id"]: {...} for t in templates}\<close>: the last entry of
  an id wins; a template id that is not text is the key of no entry.
\<close>

definition template_map_get :: "template list \<Rightarrow> val \<Rightarrow> template option" where
  "template_map_get ts tid =
     (case tid of StrV s \<Rightarrow> find (\<lambda>t. template_id t = s) (rev ts) | _ \<Rightarrow> None)"

definition resolve_template_id :: "row \<Rightarrow> val" where
  "resolve_template_id r =
     (if notnull (row_get r ''template_id'' NoneV) then row_get r ''template_id'' NoneV
      else StrV ''TEMPLATE-001'')"

definition context_get :: "rendering_context \<Rightarrow> string \<Rightarrow> val \<Rightarrow> val" where
  "context_get ctx k d = (case map_of ctx k of None \<Rightarrow> d | Some v \<Rightarrow> v)"

text \<open>The output record of a row, its fourteen columns in order.\<close>

definition output_row :: "env \<Rightarrow> nat \<Rightarrow> row \<Rightarrow> val \<Rightarrow> template \<Rightarrow> rendering_context \<Rightarrow> string \<Rightarrow> error + row" where
  "output_row ev n r tid t ctx agreement_text =
     ebind (row_item r ''application_id'') (\<lambda>app.
     ebind (row_item r ''client_id'') (\<lambda>cli.
       Inr [(''agreement_id'', StrV (uuid4 ev n)),
            (''cam_id'', row_get r ''cam_id'' (StrV ''N/A'')),
            (''application_id'', app),
            (''client_id'', cli),
            (''client_name'', row_get r ''full_name'' (StrV ''N/A'')),
            (''template_id'', tid),
            (''template_name'', StrV (case template_name t of None \<Rightarrow> '''' | Some n \<Rightarrow> n)),
            (''loan_type'', row_get r ''loan_type'' (StrV ''N/A'')),
            (''loan_amount'', context_get ctx ''loan_amount'' (StrV ''N/A'')),
            (''populated_agreement_content'', StrV agreement_text),
            (''generation_date'', StrV (today ev)),
            (''status'', StrV ''Generated''),
            (''review_required'', StrV ''Yes''),
            (''compliance_check'', StrV ''Pending'')]))"

text \<open>
  One pass of the row loop: \<open>None\<close> when the row is skipped (\<^verbatim>\<open>continue\<close>), the output
  record otherwise, or the exception that leaves the loop. \<open>n\<close> counts the records
  appended so far.
\<close>

definition process_row ::
  "env \<Rightarrow> template list \<Rightarrow> nat \<Rightarrow> row \<Rightarrow> call list \<Rightarrow> call list \<times> (error + row option)" where
  "process_row ev ts n r lg =
     (let tid = resolve_template_id r in
      case template_map_get ts tid of
        None \<Rightarrow> (lg, Inr None)
      | Some t \<Rightarrow>
          (case resolve_context (float_repr ev) r tid of
             Inl e \<Rightarrow> (lg, Inl e)
           | Inr c3 \<Rightarrow>
               (let c4 = dict_update c3 (defaults ev) in
                case narrative ev r lg of
                  (lg1, Inl e) \<Rightarrow> (lg1, Inl e)
                | (lg1, Inr ac) \<Rightarrow>
                    (let c5 = AList.update ''approval_conditions'' (StrV ac) c4 in
                     case render ev (template_content t) c5 of
                       Inl e \<Rightarrow> (lg1 @ [Render (template_content t)], Inl e)
                     | Inr txt \<Rightarrow>
                         (lg1 @ [Render (template_content t)],
                          (case output_row ev n r tid t c5 txt of
                             Inl e \<Rightarrow> Inl e
                           | Inr out \<Rightarrow> Inr (Some out)))))))"

fun row_loop ::
  "env \<Rightarrow> template list \<Rightarrow> row list \<Rightarrow> row list \<Rightarrow> call list \<Rightarrow> call list \<times> (error + row list)" where
  "row_loop ev ts [] out lg = (lg, Inr out)"
| "row_loop ev ts (r # rs) out lg =
     (case process_row ev ts (length out) r lg of
        (lg1, Inl e) \<Rightarrow> (lg1, Inl e)
      | (lg1, Inr None) \<Rightarrow> row_loop ev ts rs out lg1
      | (lg1, Inr (Some orow)) \<Rightarrow> row_loop ev ts rs (out @ [orow]) lg1)"

text \<open>
  The narrative step of the earlier revision, \<^verbatim>\<open>lambda_function.py\<close> at the top of the
  repository, for comparison: there the extraction and the generation stand in one
  \<^verbatim>\<open>try\<close> block, and every exception gives the sentinel.
  \<^verbatim>\<open>
  try:
      cam_s3_key = f"cams/{row['application_id']}.pdf"
      textract_fields = extract_from_textract(bucket_name, cam_s3_key)
      cam_text = "\n".join([f"{k}: {v}" for k, v in textract_fields.items()])
      context["approval_conditions"] = generate_approval_conditions(cam_text)
  except Exception:
      context["approval_conditions"] = "Approval conditions not available."
  \<close>
\<close>

definition narrative_v1 :: "env \<Rightarrow> row \<Rightarrow> string" where
  "narrative_v1 ev r =
     (case ebind (row_item r ''application_id'') (\<lambda>a.
           ebind (extract_from_textract ev bucket_name
                    (StrV (''cams/'' @ py_str (float_repr ev) a @ ''.pdf''))) (\<lambda>flds.
             generate_approval_conditions ev (StrV (serialise_fields flds)))) of
        Inl e \<Rightarrow> sentinel
      | Inr s \<Rightarrow> s)"

section \<open>Record Merger\<close>

text \<open>
  A data frame is its column labels and its rows, each row a list of cells in column
  order. \<^verbatim>\<open>iterrows\<close> pairs labels and cells.
\<close>

record frame =
  columns :: "string list"
  frame_rows :: "val list list"


definition iterrows :: "frame \<Rightarrow> row list" where
  "iterrows f = map (zip (columns f)) (frame_rows f)"

definition cell :: "string list \<Rightarrow> val list \<Rightarrow> string \<Rightarrow> val" where
  "cell cols r k = (case map_of (zip cols r) k of None \<Rightarrow> FloatV FNaN | Some v \<Rightarrow> v)"

text \<open>\<^verbatim>\<open>df.drop(columns=names, errors='ignore')\<close>\<close>

definition drop_cells :: "string list \<Rightarrow> string list \<Rightarrow> val list \<Rightarrow> val list" where
  "drop_cells names cols r = map snd (filter (\<lambda>cv. fst cv \<notin> set names) (zip cols r))"

definition drop_columns :: "string list \<Rightarrow> frame \<Rightarrow> frame" where
  "drop_columns names f =
     \<lparr>columns = filter (\<lambda>c. c \<notin> set names) (columns f),
      frame_rows = map (drop_cells names (columns f)) (frame_rows f)\<rparr>"

text \<open>
  \<^verbatim>\<open>left.merge(right, on=key, how="left")\<close> of pandas 2: the key must be a label of both
  frames; the key column of the right frame is dropped; a label that both sides then
  share gets the suffix \<^verbatim>\<open>_x\<close> on the left and \<^verbatim>\<open>_y\<close> on the right; a duplicate label
  that the suffixes create on one side raises \<^verbatim>\<open>MergeError\<close>. Every left row is kept,
  in order, once for each right row with a matching key (in the order of the right
  frame), or once with NaN in the right columns when no right row matches. Null keys
  match each other.
\<close>

definition key_match :: "val \<Rightarrow> val \<Rightarrow> bool" where
  "key_match a b =
     (if \<not> notnull a \<or> \<not> notnull b then \<not> notnull a \<and> \<not> notnull b
      else (case (a, b) of
              (IntV i, FloatV (Fin r)) \<Rightarrow> of_int i = r
            | (FloatV (Fin r), IntV i) \<Rightarrow> of_int i = r
            | _ \<Rightarrow> a = b))"

fun duplicated_from :: "'a list \<Rightarrow> 'a list \<Rightarrow> bool list" where
  "duplicated_from seen [] = []"
| "duplicated_from seen (x # xs) = (x \<in> set seen) # duplicated_from (x # seen) xs"

definition caused_dups :: "string list \<Rightarrow> string list \<Rightarrow> bool" where
  "caused_dups old new =
     list_ex (\<lambda>p. fst p \<and> \<not> snd p) (zip (duplicated_from [] new) (duplicated_from [] old))"

definition suffix_labels :: "string \<Rightarrow> string list \<Rightarrow> string list \<Rightarrow> string list" where
  "suffix_labels sfx other cols = map (\<lambda>c. if c \<in> set other then c @ sfx else c) cols"

definition merge_rows :: "frame \<Rightarrow> frame \<Rightarrow> string \<Rightarrow> val list \<Rightarrow> val list list" where
  "merge_rows L R key l =
     (let ms = filter (\<lambda>r. key_match (cell (columns L) l key) (cell (columns R) r key)) (frame_rows R)
      in if ms = [] then
           [l @ replicate (length (filter (\<lambda>c. c \<noteq> key) (columns R))) (FloatV FNaN)]
         else map (\<lambda>r. l @ drop_cells [key] (columns R) r) ms)"

definition merge_left :: "frame \<Rightarrow> frame \<Rightarrow> string \<Rightarrow> error + frame" where
  "merge_left L R key =
     (if key \<notin> set (columns L) \<or> key \<notin> set (columns R) then Inl (KeyError key)
      else
        (let rc = filter (\<lambda>c. c \<noteq> key) (columns R);
             llabels = suffix_labels ''_x'' rc (columns L);
             rlabels = suffix_labels ''_y'' (columns L) rc
         in if caused_dups (columns L) llabels \<or> caused_dups rc rlabels then Inl MergeError
            else Inr \<lparr>columns = llabels @ rlabels,
                      frame_rows = concat (map (merge_rows L R key) (frame_rows L))\<rparr>))"

text \<open>
  \<^verbatim>\<open>
  df = loan_applications \
      .merge(clients, on="client_id", how="left") \
      .merge(borrowing_requests.drop(columns=['client_id', 'requested_amount'], errors='ignore'),
             on="application_id", how="left") \
      .merge(underwriting_decisions.drop(...), on="application_id", how="left") \
      .merge(credit_approval_memos.drop(...), on="application_id", how="left") \
      .merge(term_sheets.drop(...), on="application_id", how="left")
  \<close>
\<close>

definition dropped_keys :: "string list" where
  "dropped_keys = [''client_id'', ''requested_amount'']"

definition merge_all :: "frame \<Rightarrow> frame \<Rightarrow> frame \<Rightarrow> frame \<Rightarrow> frame \<Rightarrow> frame \<Rightarrow> error + frame" where
  "merge_all loan_applications clients borrowing_requests underwriting_decisions
       credit_approval_memos term_sheets =
     ebind (merge_left loan_applications clients ''client_id'') (\<lambda>d1.
     ebind (merge_left d1 (drop_columns dropped_keys borrowing_requests) ''application_id'') (\<lambda>d2.
     ebind (merge_left d2 (drop_columns dropped_keys underwriting_decisions) ''application_id'') (\<lambda>d3.
     ebind (merge_left d3 (drop_columns dropped_keys credit_approval_memos) ''application_id'') (\<lambda>d4.
       merge_left d4 (drop_columns dropped_keys term_sheets) ''application_id''))))"

text \<open>
  The core of \<^verbatim>\<open>main\<close>: the six frames and the template catalog as in-memory
  structures in, the calls made and the output rows (or the exception that ends the
  run) out. Reading the inputs from storage and writing the CSV are outside.
\<close>

definition main ::
  "env \<Rightarrow> frame \<Rightarrow> frame \<Rightarrow> frame \<Rightarrow> frame \<Rightarrow> frame \<Rightarrow> frame \<Rightarrow> template list
     \<Rightarrow> call list \<times> (error + row list)" where
  "main ev loan_applications clients borrowing_requests underwriting_decisions
       credit_approval_memos term_sheets templates =
     (case merge_all loan_applications clients borrowing_requests underwriting_decisions
             credit_approval_memos term_sheets of
        Inl e \<Rightarrow> ([], Inl e)
      | Inr df \<Rightarrow> row_loop ev templates (iterrows df) [] [])"

section \<open>Shapes named by the specification\<close>





text \<open>A text with no white space at either end.\<close>

definition trimmed :: "string \<Rightarrow> bool" where
  "trimmed s = (s = [] \<or> (\<not> is_space (hd s) \<and> \<not> is_space (last s)))"

text \<open>Assigning the entry of a key block to the result dictionary.\<close>

definition put_entry ::
  "block list \<Rightarrow> block \<Rightarrow> (string \<times> string) list \<Rightarrow> (string \<times> string) list" where
  "put_entry bs b flds = AList.update (fst (entry_of bs b)) (snd (entry_of bs b)) flds"



section \<open>Concrete runs\<close>

text \<open>
  Small inputs on which the definitions are evaluated: collaborators that answer, a
  text-generation service that is down, a document analysis that finds no form field,
  and the frames of two applications.
\<close>

definition env_ok :: env where
  "env_ok =
     \<lparr>analyze_document = (\<lambda>b k. Inr []),
      invoke_model = (\<lambda>p. Inr (Some [Some '' Subject to appraisal. ''])),
      render = (\<lambda>t c. Inr t),
      uuid4 = (\<lambda>n. ''agreement-'' @ digits n),
      today = ''2025-01-01'',
      float_repr = (\<lambda>r. digits (nat \<lfloor>r\<rfloor>) @ ''.0'')\<rparr>"

definition env_generation_down :: env where
  "env_generation_down = env_ok\<lparr>invoke_model := (\<lambda>p. Inl (ServiceError ''bedrock''))\<rparr>"

definition personal_loan :: template where
  "personal_loan =
     \<lparr>template_id = ''TEMPLATE-002'', template_name = Some ''Personal Loan'',
      template_content = ''Agreement with {{ borrower_name }}''\<rparr>"

definition mortgage :: template where
  "mortgage =
     \<lparr>template_id = ''TEMPLATE-001'', template_name = Some ''Mortgage'',
      template_content = ''Mortgage of {{ borrower_name }}, {{ borrower_address }}''\<rparr>"

definition bridge_loan :: template where
  "bridge_loan =
     \<lparr>template_id = ''TEMPLATE-004'', template_name = Some ''Bridge Loan'',
      template_content = ''Bridge loan of {{ lender_name }}''\<rparr>"

definition row_with_memo :: row where
  "row_with_memo =
     [(''application_id'', StrV ''A1''), (''client_id'', StrV ''C1''),
      (''template_id'', StrV ''TEMPLATE-002''), (''full_name'', StrV ''Ann Lee''),
      (''cam_content'', StrV ''Approved at 80 percent loan to value.''),
      (''cam_s3_key'', FloatV FNaN)]"

definition row_plain :: row where
  "row_plain =
     [(''application_id'', StrV ''A2''), (''client_id'', StrV ''C2''),
      (''template_id'', StrV ''TEMPLATE-002''), (''full_name'', StrV ''Bo Chen''),
      (''cam_content'', FloatV FNaN), (''cam_s3_key'', FloatV FNaN)]"

definition row_with_scan :: row where
  "row_with_scan =
     [(''application_id'', StrV ''A3''), (''client_id'', StrV ''C3''),
      (''template_id'', StrV ''TEMPLATE-002''), (''full_name'', StrV ''Cy Diaz''),
      (''cam_content'', FloatV FNaN), (''cam_s3_key'', StrV ''cams/A3.pdf'')]"

definition row_bridge :: row where
  "row_bridge =
     [(''application_id'', StrV ''A4''), (''client_id'', StrV ''C4''),
      (''template_id'', StrV ''TEMPLATE-004''), (''full_name'', StrV ''Di Evans''),
      (''cam_content'', FloatV FNaN), (''cam_s3_key'', FloatV FNaN)]"

definition row_no_city :: row where
  "row_no_city =
     [(''application_id'', StrV ''A1''), (''client_id'', StrV ''C1''),
      (''requested_amount'', IntV 400000), (''template_id'', StrV ''TEMPLATE-001''),
      (''full_name'', StrV ''Ann Lee''), (''address_line1'', StrV ''1 Main St''),
      (''city'', FloatV FNaN), (''state'', StrV ''NY''), (''zip_code'', StrV ''12207''),
      (''property_value'', IntV 500000)]"


definition loan_applications0 :: frame where
  "loan_applications0 =
     \<lparr>columns = [''application_id'', ''client_id'', ''requested_amount''],
      frame_rows = [[StrV ''A1'', StrV ''C9'', IntV 400000]]\<rparr>"

definition clients0 :: frame where
  "clients0 =
     \<lparr>columns = [''client_id'', ''full_name'', ''address_line1'', ''city'', ''state'', ''zip_code''],
      frame_rows = [[StrV ''C1'', StrV ''Ann Lee'', StrV ''1 Main St'', StrV ''Albany'', StrV ''NY'',
                     StrV ''12207'']]\<rparr>"

definition borrowing_requests0 :: frame where
  "borrowing_requests0 =
     \<lparr>columns = [''application_id'', ''client_id'', ''requested_amount'', ''property_value''],
      frame_rows = [[StrV ''A1'', StrV ''C9'', IntV 400000, IntV 500000]]\<rparr>"

definition borrowing_requests2 :: frame where
  "borrowing_requests2 =
     \<lparr>columns = [''application_id'', ''client_id'', ''requested_amount'', ''property_value''],
      frame_rows = [[StrV ''A1'', StrV ''C9'', IntV 400000, IntV 500000],
                    [StrV ''A1'', StrV ''C9'', IntV 400000, IntV 650000]]\<rparr>"

definition underwriting_decisions0 :: frame where
  "underwriting_decisions0 =
     \<lparr>columns = [''application_id'', ''recommended_rate''],
      frame_rows = [[StrV ''A1'', FloatV (Fin (13 / 2))]]\<rparr>"

definition credit_approval_memos0 :: frame where
  "credit_approval_memos0 =
     \<lparr>columns = [''application_id'', ''cam_id'', ''template_id''],
      frame_rows = [[StrV ''A1'', StrV ''CAM1'', StrV ''TEMPLATE-001'']]\<rparr>"

definition term_sheets0 :: frame where
  "term_sheets0 =
     \<lparr>columns = [''application_id'', ''term_years''],
      frame_rows = [[StrV ''A1'', IntV 30]]\<rparr>"

definition merged0 :: "error + frame" where
  "merged0 = merge_all loan_applications0 clients0 borrowing_requests0 underwriting_decisions0
               credit_approval_memos0 term_sheets0"


text \<open>
  An analysis response with one key block paired with a value block, their words, and
  a key block that has no relationships at all.
\<close>

definition response0 :: "block list" where
  "response0 =
     [\<lparr>block_id = ''k1'', block_type = ''KEY_VALUE_SET'', entity_types = Some [''KEY''],
       relationships = Some [\<lparr>rel_type = ''VALUE'', rel_ids = [''v1'']\<rparr>,
                             \<lparr>rel_type = ''CHILD'', rel_ids = [''w1'', ''w2'']\<rparr>],
       block_text = None\<rparr>,
      \<lparr>block_id = ''v1'', block_type = ''KEY_VALUE_SET'', entity_types = Some [''VALUE''],
       relationships = Some [\<lparr>rel_type = ''CHILD'', rel_ids = [''w3'']\<rparr>],
       block_text = None\<rparr>,
      \<lparr>block_id = ''w1'', block_type = ''WORD'', entity_types = None, relationships = None,
       block_text = Some '' Loan''\<rparr>,
      \<lparr>block_id = ''w2'', block_type = ''WORD'', entity_types = None, relationships = None,
       block_text = Some ''Amount ''\<rparr>,
      \<lparr>block_id = ''w3'', block_type = ''WORD'', entity_types = None, relationships = None,
       block_text = Some ''500''\<rparr>,
      \<lparr>block_id = ''k2'', block_type = ''KEY_VALUE_SET'', entity_types = Some [''KEY''],
       relationships = None, block_text = None\<rparr>]"

definition env_scan :: env where
  "env_scan = env_ok\<lparr>analyze_document := (\<lambda>b k. Inr response0)\<rparr>"

section \<open>Properties of the formatting utilities\<close>

lemma digit_char_lt10: "n < 10 \<Longrightarrow> of_char (''0123456789'' ! n) = (48 + n :: nat)"
proof -
  assume "n < 10"
  then consider "n = 0" | "n = 1" | "n = 2" | "n = 3" | "n = 4" | "n = 5" | "n = 6"
    | "n = 7" | "n = 8" | "n = 9"
    by atomize_elim arith
  then show ?thesis
    by cases simp_all
qed

lemma of_char_digit_char: "of_char (digit_char d) = (48 + d mod 10 :: nat)"
  by (simp add: digit_char_def digit_char_lt10)


lemma digit_val_digit_char [simp]: "digit_val (digit_char d) = d mod 10"
  by (simp add: digit_val_def of_char_digit_char)

lemma not_digit_comma [simp]: "\<not> is_digit CHR '',''"
  by (simp add: is_digit_def)





























lemma na_not_numeric: "float_of_str ''N/A'' = None"
  by code_simp



section \<open>Properties of the resolver\<close>

lemmas merge_defs = merge_all_def merge_left_def merge_rows_def drop_columns_def drop_cells_def
  dropped_keys_def cell_def key_match_def caused_dups_def suffix_labels_def ebind_def Let_def

lemmas frames0_defs = loan_applications0_def clients0_def borrowing_requests0_def
  borrowing_requests2_def underwriting_decisions0_def credit_approval_memos0_def term_sheets0_def

lemmas eval_defs = resolve_context_def mapping_of_def template_mappings_def ebind_def
  resolve_source_def row_get_def row_item_def borrower_address_def down_payment_def
  currency_fields_def percentage_fields_def format_currency_def format_percentage_def
  cents_def round_half_even_def Let_def group3.simps digits.simps pad3_def frac2_def digit_char_def
  int_str_def na_not_numeric

lemmas run_defs = process_row_def resolve_template_id_def template_map_get_def narrative_def
  cam_source_def dict_update_def defaults_def output_row_def context_get_def
  generate_approval_conditions_def extract_from_textract_def sentinel_def serialise_fields_def
  join_lines_def

lemmas env_defs = env_ok_def env_generation_down_def personal_loan_def mortgage_def bridge_loan_def

lemma ebind_Inr_iff: "ebind m f = Inr y \<longleftrightarrow> (\<exists>x. m = Inr x \<and> f x = Inr y)"
  by (cases m) (simp_all add: ebind_def)

lemma map_of_Some_key: "map_of c k = Some v \<Longrightarrow> k \<in> fst ` set c"
  by (metis domI dom_map_of_conv_image_fst)

lemma apply_format_keys: "apply_format fmt fs c = Inr c' \<Longrightarrow> fst ` set c' = fst ` set c"
proof (induction fs arbitrary: c)
  case Nil
  then show ?case by simp
next
  case (Cons f fs)
  show ?case
  proof (cases "map_of c f")
    case None
    with Cons show ?thesis by simp
  next
    case (Some v)
    with Cons.prems obtain s where s: "fmt v = Inr s"
      and rest: "apply_format fmt fs (AList.update f (StrV s) c) = Inr c'"
      by (auto simp: ebind_Inr_iff)
    from Cons.IH [OF rest] map_of_Some_key [OF Some] show ?thesis
      by (auto simp: dom_update)
  qed
qed




lemma build_context_keys:
  "build_context r m c = Inr c' \<Longrightarrow> fst ` set c' = fst ` set c \<union> fst ` set m"
proof (induction m arbitrary: c)
  case Nil
  then show ?case by simp
next
  case (Cons p m)
  obtain f src where p: "p = (f, src)" by (cases p)
  with Cons.prems obtain v where "build_context r m (AList.update f v c) = Inr c'"
    by (auto simp: ebind_Inr_iff)
  from Cons.IH [OF this] p show ?case
    by (auto simp: dom_update)
qed

lemma resolve_context_keys:
  "resolve_context fr r tid = Inr ctx \<Longrightarrow> fst ` set ctx = fst ` set (mapping_of fr tid)"
proof -
  assume "resolve_context fr r tid = Inr ctx"
  then obtain c1 c2 where a: "build_context r (mapping_of fr tid) [] = Inr c1"
    and b: "apply_format format_currency currency_fields c1 = Inr c2"
    and c: "apply_format format_percentage percentage_fields c2 = Inr ctx"
    by (auto simp: resolve_context_def ebind_Inr_iff)
  from build_context_keys [OF a] apply_format_keys [OF b] apply_format_keys [OF c]
  show ?thesis by simp
qed

lemma mapping_of_keys:
  "fst ` set (mapping_of fr tid) \<subseteq>
     {''borrower_name'', ''loan_amount'', ''interest_rate'', ''loan_term'', ''monthly_payment'',
      ''annual_income'', ''credit_score'', ''ltv_ratio'', ''employment_status'',
      ''borrower_address'', ''property_address'', ''property_value'', ''down_payment'',
      ''loan_purpose'', ''collateral_details''}"
proof (cases tid)
  case (StrV s)
  consider "s = ''TEMPLATE-001''" | "s = ''TEMPLATE-002''" | "s = ''TEMPLATE-003''"
    | "s \<noteq> ''TEMPLATE-001''" "s \<noteq> ''TEMPLATE-002''" "s \<noteq> ''TEMPLATE-003''"
    by blast
  then show ?thesis
    by cases (simp_all add: StrV mapping_of_def template_mappings_def)
qed (simp_all add: mapping_of_def)

lemma defaults_keys:
  "fst ` set (defaults ev) =
     {''agreement_date'', ''lender_name'', ''payment_day'', ''grace_period'', ''state_jurisdiction''}"
  by (auto simp: defaults_def)

lemma dict_update_lookup:
  "map_of (dict_update ctx kvs) k =
     (case map_of (rev kvs) k of None \<Rightarrow> map_of ctx k | Some v \<Rightarrow> Some v)"
  unfolding dict_update_def
proof (induction kvs arbitrary: ctx)
  case Nil
  then show ?case by simp
next
  case (Cons kv kvs)
  show ?case
    by (simp add: Cons.IH update_conv' map_add_def split: option.splits)
qed

lemma resolved_not_default:
  assumes "resolve_context fr r tid = Inr ctx" and "k \<in> fst ` set ctx"
  shows "k \<notin> fst ` set (defaults ev)"
proof -
  from assms resolve_context_keys [OF assms(1)] mapping_of_keys [of fr tid]
  have "k \<in> {''borrower_name'', ''loan_amount'', ''interest_rate'', ''loan_term'', ''monthly_payment'',
      ''annual_income'', ''credit_score'', ''ltv_ratio'', ''employment_status'',
      ''borrower_address'', ''property_address'', ''property_value'', ''down_payment'',
      ''loan_purpose'', ''collateral_details''}"
    by blast
  then show ?thesis
    unfolding defaults_keys by auto
qed


subsection \<open>The context of a mortgage row\<close>








subsection \<open>The row loop\<close>

lemma process_row_skip:
  "template_map_get ts (resolve_template_id r) = None \<Longrightarrow> process_row ev ts n r lg = (lg, Inr None)"
  by (simp add: process_row_def)

lemma output_row_application_id:
  "output_row ev n r tid t ctx agr = Inr out \<Longrightarrow>
     map_of out ''application_id'' = map_of r ''application_id''
     \<and> map_of out ''status'' = Some (StrV ''Generated'')"
  by (auto simp: output_row_def ebind_Inr_iff row_item_def split: option.splits)

lemma process_row_emits:
  assumes "process_row ev ts n r lg = (lg1, Inr (Some out))"
  shows "template_map_get ts (resolve_template_id r) \<noteq> None
     \<and> map_of out ''application_id'' = map_of r ''application_id''
     \<and> map_of out ''status'' = Some (StrV ''Generated'')"
proof (cases "template_map_get ts (resolve_template_id r)")
  case None
  with assms show ?thesis by (simp add: process_row_def)
next
  case (Some t)
  from assms Some obtain c5 agr
    where "output_row ev n r (resolve_template_id r) t c5 agr = Inr out"
    by (auto simp: process_row_def Let_def split: sum.splits prod.splits)
  from output_row_application_id [OF this] Some show ?thesis by simp
qed

lemma process_row_continues:
  assumes "process_row ev ts n r lg = (lg1, Inr None)"
  shows "template_map_get ts (resolve_template_id r) = None \<and> lg1 = lg"
proof (cases "template_map_get ts (resolve_template_id r)")
  case None
  with assms show ?thesis by (simp add: process_row_def)
next
  case (Some t)
  with assms show ?thesis
    by (auto simp: process_row_def Let_def split: sum.splits prod.splits)
qed

lemma row_loop_output:
  "row_loop ev ts rs out0 lg0 = (lg, Inr out) \<Longrightarrow>
     \<exists>new. out = out0 @ new
       \<and> map (\<lambda>orow. map_of orow ''application_id'') new =
           map (\<lambda>r. map_of r ''application_id'')
             (filter (\<lambda>r. template_map_get ts (resolve_template_id r) \<noteq> None) rs)
       \<and> list_all (\<lambda>orow. map_of orow ''status'' = Some (StrV ''Generated'')) new"
proof (induction rs arbitrary: out0 lg0)
  case Nil
  then show ?case by simp
next
  case (Cons r rs)
  obtain lg1 res where pr: "process_row ev ts (length out0) r lg0 = (lg1, res)"
    by (cases "process_row ev ts (length out0) r lg0")
  show ?case
  proof (cases res)
    case (Inl e)
    with Cons.prems pr show ?thesis by simp
  next
    case (Inr ro)
    show ?thesis
    proof (cases ro)
      case None
      with Inr pr Cons.prems have "row_loop ev ts rs out0 lg1 = (lg, Inr out)" by simp
      from Cons.IH [OF this] process_row_continues [of ev ts "length out0" r lg0 lg1] pr Inr None
      show ?thesis by simp
    next
      case (Some orow)
      with Inr pr Cons.prems have "row_loop ev ts rs (out0 @ [orow]) lg1 = (lg, Inr out)" by simp
      from Cons.IH [OF this] obtain new where new: "out = (out0 @ [orow]) @ new"
        "map (\<lambda>orow. map_of orow ''application_id'') new =
           map (\<lambda>r. map_of r ''application_id'')
             (filter (\<lambda>r. template_map_get ts (resolve_template_id r) \<noteq> None) rs)"
        "list_all (\<lambda>orow. map_of orow ''status'' = Some (StrV ''Generated'')) new"
        by blast
      from process_row_emits [of ev ts "length out0" r lg0 lg1 orow] pr Inr Some
      have e: "template_map_get ts (resolve_template_id r) \<noteq> None"
        "map_of orow ''application_id'' = map_of r ''application_id''"
        "map_of orow ''status'' = Some (StrV ''Generated'')"
        by simp_all
      have "out = out0 @ (orow # new)" using new(1) by simp
      with new(2,3) e show ?thesis
        by (intro exI [of _ "orow # new"]) simp
    qed
  qed
qed


subsection \<open>The extractor loop and its result dictionary\<close>

lemma strip_trimmed: "trimmed (strip s)"
proof -
  let ?t = "dropWhile is_space s"
  let ?u = "dropWhile is_space (rev ?t)"
  show ?thesis
  proof (cases "?u = []")
    case True
    then show ?thesis by (simp add: trimmed_def strip_def)
  next
    case False
    then have h: "\<not> is_space (hd ?u)"
      by (rule hd_dropWhile)
    have t: "?t \<noteq> []"
    proof
      assume "?t = []"
      then have "?u = dropWhile is_space (rev [])" by (simp only:)
      then have "?u = []" by (simp only: rev.simps dropWhile.simps)
      with False show False ..
    qed
    then have "\<not> is_space (hd ?t)"
      by (rule hd_dropWhile)
    moreover have "last ?u = last (rev ?t)"
      using False by (metis last_appendR takeWhile_dropWhile_id)
    ultimately have "\<not> is_space (last ?u)"
      using t by (simp add: last_rev)
    with h False show ?thesis
      by (simp add: trimmed_def strip_def hd_rev last_rev)
  qed
qed

lemma strip_empty [simp]: "strip [] = []"
  by (simp add: strip_def)

lemma value_block_id_ok:
  assumes "list_all (\<lambda>rel. rel_type rel = ''VALUE'' \<longrightarrow> rel_ids rel \<noteq> []) (get_rels b)"
  shows "value_block_id b = Inr (paired_value_id b)"
proof (cases "find (\<lambda>rel. rel_type rel = ''VALUE'') (get_rels b)")
  case None
  then show ?thesis by (simp add: value_block_id_def paired_value_id_def)
next
  case (Some rel)
  then have "rel \<in> set (get_rels b)" "rel_type rel = ''VALUE''"
    by (auto simp: find_Some_iff)
  with assms have "rel_ids rel \<noteq> []"
    by (auto simp: list_all_iff)
  with Some show ?thesis
    by (auto simp: value_block_id_def paired_value_id_def split: list.splits)
qed


lemma extract_loop_fold:
  assumes "list_all (\<lambda>b. (block_type b = ''KEY_VALUE_SET'' \<longrightarrow> entity_types b \<noteq> None) \<and>
             list_all (\<lambda>rel. rel_type rel = ''VALUE'' \<longrightarrow> rel_ids rel \<noteq> []) (get_rels b)) rest"
  shows "extract_loop bs rest acc = Inr (fold (put_entry bs) (filter is_key_block rest) acc)"
  using assms
proof (induction rest arbitrary: acc)
  case Nil
  then show ?case by simp
next
  case (Cons b rest)
  then have v: "value_block_id b = Inr (paired_value_id b)"
    by (simp add: value_block_id_ok)
  from Cons.prems have e: "block_type b = ''KEY_VALUE_SET'' \<longrightarrow> entity_types b \<noteq> None"
    by simp
  from Cons.prems have ih: "\<And>acc. extract_loop bs rest acc =
      Inr (fold (put_entry bs) (filter is_key_block rest) acc)"
    using Cons.IH by simp
  show ?case
  proof (cases "is_key_block b")
    case True
    then obtain ets where k: "block_type b = ''KEY_VALUE_SET''" "entity_types b = Some ets"
      "''KEY'' \<in> set ets"
      by (auto simp: is_key_block_def split: option.splits)
    have "extract_loop bs (b # rest) acc = extract_loop bs rest (put_entry bs b acc)"
      by (simp add: k v put_entry_def entry_of_def)
    also have "\<dots> = Inr (fold (put_entry bs) (filter is_key_block rest) (put_entry bs b acc))"
      by (rule ih)
    finally show ?thesis
      using True by simp
  next
    case False
    have "extract_loop bs (b # rest) acc = extract_loop bs rest acc"
    proof (cases "block_type b = ''KEY_VALUE_SET''")
      case True
      with e obtain ets where "entity_types b = Some ets" by auto
      with True False show ?thesis
        by (simp add: is_key_block_def)
    next
      case False
      then show ?thesis by simp
    qed
    also have "\<dots> = Inr (fold (put_entry bs) (filter is_key_block rest) acc)"
      by (rule ih)
    finally show ?thesis
      using False by simp
  qed
qed

lemma put_entry_lookup:
  "map_of (put_entry bs b flds) k =
     (if k = fst (entry_of bs b) then Some (snd (entry_of bs b)) else map_of flds k)"
  by (simp add: put_entry_def update_conv')

lemma put_entry_keys:
  "fst ` set (put_entry bs b flds) = insert (fst (entry_of bs b)) (fst ` set flds)"
  by (simp add: put_entry_def dom_update)

lemma put_entry_distinct:
  "distinct (map fst flds) \<Longrightarrow> distinct (map fst (put_entry bs b flds))"
  by (simp add: put_entry_def distinct_update)

lemma fold_put_lookup:
  "map_of (fold (put_entry bs) xs acc) k =
     (case map_of (rev (map (entry_of bs) xs)) k of None \<Rightarrow> map_of acc k | Some v \<Rightarrow> Some v)"
proof (induction xs arbitrary: acc)
  case Nil
  then show ?case by simp
next
  case (Cons x xs)
  have "map_of (fold (put_entry bs) (x # xs) acc) k =
      (case map_of (rev (map (entry_of bs) xs)) k of
         None \<Rightarrow> map_of (put_entry bs x acc) k | Some v \<Rightarrow> Some v)"
    by (simp add: Cons.IH)
  then show ?case
    by (cases "entry_of bs x")
       (simp add: put_entry_lookup map_add_def split: option.splits)
qed

lemma fold_put_distinct:
  "distinct (map fst acc) \<Longrightarrow> distinct (map fst (fold (put_entry bs) xs acc))"
  by (induction xs arbitrary: acc) (simp_all add: put_entry_distinct)

lemma fold_put_keys:
  "fst ` set (fold (put_entry bs) xs acc) = fst ` set acc \<union> fst ` entry_of bs ` set xs"
  by (induction xs arbitrary: acc) (auto simp: put_entry_keys)

lemma extract_loop_spec:
  assumes "well_formed_response bs"
  shows "\<exists>flds. extract_loop bs bs [] = Inr flds
     \<and> map_of flds = map_of (rev (map (entry_of bs) (filter is_key_block bs)))
     \<and> distinct (map fst flds)
     \<and> fst ` set flds = fst ` entry_of bs ` {b \<in> set bs. is_key_block b}"
proof -
  let ?f = "fold (put_entry bs) (filter is_key_block bs) []"
  from assms have "extract_loop bs bs [] = Inr ?f"
    unfolding well_formed_response_def by (rule extract_loop_fold)
  moreover have "map_of ?f = map_of (rev (map (entry_of bs) (filter is_key_block bs)))"
    by (rule ext) (simp add: fold_put_lookup split: option.splits)
  moreover have "distinct (map fst ?f)"
    by (rule fold_put_distinct) simp
  moreover have "fst ` set ?f = fst ` entry_of bs ` {b \<in> set bs. is_key_block b}"
    by (simp add: fold_put_keys)
  ultimately show ?thesis by blast
qed

lemma entry_no_relationships: "relationships b = None \<Longrightarrow> entry_of bs b = ('''', '''')"
  by (simp add: entry_of_def children_text_def get_rels_def paired_value_id_def value_text_def)

lemma entry_no_value: "paired_value_id b = None \<Longrightarrow> snd (entry_of bs b) = ''''"
  by (simp add: entry_of_def value_text_def)

lemma child_text_missing:
  "(\<forall>b \<in> set bs. block_id b = cid \<longrightarrow> block_text b = None) \<Longrightarrow> child_text bs cid = ''''"
proof -
  assume "\<forall>b \<in> set bs. block_id b = cid \<longrightarrow> block_text b = None"
  then have "find (\<lambda>b. block_id b = cid \<and> block_text b \<noteq> None) bs = None"
    by (auto simp: find_None_iff)
  then show ?thesis by (simp add: child_text_def)
qed

lemma last_entry_wins:
  assumes "xs = pre @ b # post" "fst (entry_of bs b) \<notin> fst ` entry_of bs ` set post"
  shows "map_of (rev (map (entry_of bs) xs)) (fst (entry_of bs b)) = Some (snd (entry_of bs b))"
proof -
  have eq: "fst ` set (rev (map (entry_of bs) post)) = fst ` entry_of bs ` set post"
    by (simp only: set_rev set_map)
  have "fst (entry_of bs b) \<notin> fst ` set (rev (map (entry_of bs) post))"
    using assms(2) by (simp only: set_rev set_map not_False_eq_True)
  then have "map_of (rev (map (entry_of bs) post)) (fst (entry_of bs b)) = None"
    by (simp only: map_of_eq_None_iff not_False_eq_True)
  then show ?thesis
    by (cases "entry_of bs b") (simp add: assms(1) map_add_def)
qed


subsection \<open>Left joins on unique keys\<close>












lemma columns_drop [simp]:
  "columns (drop_columns ns f) = filter (\<lambda>c. c \<notin> set ns) (columns f)"
  by (simp add: drop_columns_def)






section \<open>The claims\<close>

lemma plain_row_completes:
  "(case row_loop env_generation_down [personal_loan] [row_plain] [] [] of
      (lg, Inr [out]) \<Rightarrow> map_of out ''status'' = Some (StrV ''Generated'') \<and>
                          map_of out ''application_id'' = Some (StrV ''A2'')
    | _ \<Rightarrow> False)"
  by (simp add: run_defs eval_defs env_defs row_plain_def)

lemma narrative_v1_generation_failure:
  "(\<And>p. \<exists>e. invoke_model ev p = Inl e) \<Longrightarrow> narrative_v1 ev r = sentinel"
proof -
  assume a: "\<And>p. \<exists>e. invoke_model ev p = Inl e"
  have "\<exists>e. generate_approval_conditions ev t = Inl e" for t
    using a [of "prompt_of ev t"] by (auto simp: generate_approval_conditions_def)
  then have g: "generate_approval_conditions ev t \<noteq> Inr s" for t s
    by (metis sum.distinct(1))
  show ?thesis
  proof (cases "ebind (row_item r ''application_id'') (\<lambda>a.
           ebind (extract_from_textract ev bucket_name
                    (StrV (''cams/'' @ py_str (float_repr ev) a @ ''.pdf''))) (\<lambda>flds.
             generate_approval_conditions ev (StrV (serialise_fields flds))))")
    case (Inl e)
    then show ?thesis by (simp add: narrative_v1_def)
  next
    case (Inr s)
    then obtain flds where "generate_approval_conditions ev (StrV (serialise_fields flds)) = Inr s"
      by (auto simp: ebind_Inr_iff)
    with g show ?thesis by blast
  qed
qed

text \<open>
  Claim C1 says that a failure raised by extraction or by generation is caught at the row
  boundary and degrades to the sentinel, the row completing with status \<open>Generated\<close>.
  The call of the generator stands outside the \<^verbatim>\<open>try\<close> block: with a memo text on the
  first row and a text-generation service that raises, the run ends with that exception
  on the first row, no output row is produced and the second row, which would complete,
  is never processed.
\<close>

theorem C1_generation_failure_ends_run:
  "row_loop env_generation_down [personal_loan] [row_with_memo, row_plain] [] [] =
     ([Generate (prompt_of env_generation_down (StrV ''Approved at 80 percent loan to value.''))],
      Inl (ServiceError ''bedrock''))"
  by (simp add: run_defs eval_defs env_defs row_with_memo_def row_plain_def)

lemma merged0_rows:
  "(case merged0 of Inl e \<Rightarrow> [] | Inr df \<Rightarrow> iterrows df) =
     [[(''application_id'', StrV ''A1''), (''client_id'', StrV ''C9''),
       (''requested_amount'', IntV 400000), (''full_name'', FloatV FNaN),
       (''address_line1'', FloatV FNaN), (''city'', FloatV FNaN),
       (''state'', FloatV FNaN), (''zip_code'', FloatV FNaN),
       (''property_value'', IntV 500000), (''recommended_rate'', FloatV (Fin (13 / 2))),
       (''cam_id'', StrV ''CAM1''), (''template_id'', StrV ''TEMPLATE-001''),
       (''term_years'', IntV 30)]]"
  by (simp add: merged0_def merge_defs frames0_defs iterrows_def)

lemma verbatim_absent_column:
  "map_of r c = None \<Longrightarrow> resolve_source r (Col c) = Inr (StrV ''N/A'')"
  by (simp add: resolve_source_def row_get_def)

lemma verbatim_null_cell:
  "map_of r c = Some (FloatV FNaN) \<Longrightarrow> resolve_source r (Col c) = Inr (FloatV FNaN)"
  by (simp add: resolve_source_def row_get_def)

text \<open>
  Claim C7 says that a verbatim column reference gives the "not available" sentinel
  whenever the value is absent, also for right-side fields that the left join left
  missing. \<^verbatim>\<open>row.get(src, "N/A")\<close> gives the default only for an absent label: an
  application whose client has no row in the clients set gets NaN in \<open>full_name\<close>,
  and the context holds that NaN under \<open>borrower_name\<close>.
\<close>

theorem C7_missing_name_copied_as_nan:
  "(case merged0 of Inl e \<Rightarrow> None | Inr df \<Rightarrow>
      (case resolve_context (float_repr env_ok) (hd (iterrows df)) (resolve_template_id (hd (iterrows df))) of
         Inl e \<Rightarrow> None | Inr ctx \<Rightarrow> map_of ctx ''borrower_name''))
   = Some (FloatV FNaN)"
  by (simp add: merged0_def merge_defs frames0_defs iterrows_def eval_defs resolve_template_id_def)

text \<open>
  Claim C8 says that \<open>borrower_address\<close> is composed only when the four address parts
  are non-null and is the "not available" sentinel otherwise. The rule formats the
  four cells without a null test: with a NaN city the address is composed with the
  text \<open>nan\<close> in it.
\<close>

theorem C8_address_with_missing_city:
  "borrower_address (float_repr env_ok) row_no_city = Inr (StrV ''1 Main St, nan, NY 12207'')
   \<and> row_item row_no_city ''city'' = Inr (FloatV FNaN)
   \<and> (case resolve_context (float_repr env_ok) row_no_city (resolve_template_id row_no_city) of
         Inl e \<Rightarrow> None | Inr ctx \<Rightarrow> map_of ctx ''borrower_address'')
       = Some (StrV ''1 Main St, nan, NY 12207'')"
  by (simp add: eval_defs row_no_city_def resolve_template_id_def)




text \<open>
  Claim C9. For every rendering context the resolver produces (any row, any template
  id), overlaying the run-wide defaults leaves the value of every resolved field
  unchanged; keys other than the five default keys are untouched, and each default is
  added under a key that was not resolved. The overlay is \<^verbatim>\<open>dict.update\<close>, which would
  replace a resolved value of the same key: the statement holds because no mapping table
  declares one of the five default keys.
\<close>

theorem C9_defaults_keep_resolved_fields:
  "resolve_context (float_repr ev) r tid = Inr ctx \<longrightarrow>
     (\<forall>k \<in> fst ` set ctx. map_of (dict_update ctx (defaults ev)) k = map_of ctx k)
     \<and> (\<forall>k. k \<notin> fst ` set (defaults ev) \<longrightarrow> map_of (dict_update ctx (defaults ev)) k = map_of ctx k)
     \<and> (\<forall>kv \<in> set (defaults ev). fst kv \<notin> fst ` set ctx
            \<and> map_of (dict_update ctx (defaults ev)) (fst kv) = Some (snd kv))"
proof
  assume rc: "resolve_context (float_repr ev) r tid = Inr ctx"
  have other: "map_of (dict_update ctx (defaults ev)) k = map_of ctx k"
    if "k \<notin> fst ` set (defaults ev)" for k
  proof -
    from that have "k \<notin> fst ` set (rev (defaults ev))" by simp
    then have "map_of (rev (defaults ev)) k = None"
      by (simp add: map_of_eq_None_iff del: set_rev)
    then show ?thesis by (simp add: dict_update_lookup)
  qed
  have kept: "\<forall>k \<in> fst ` set ctx. map_of (dict_update ctx (defaults ev)) k = map_of ctx k"
    using other resolved_not_default [OF rc] by blast
  have filled: "\<forall>kv \<in> set (defaults ev). fst kv \<notin> fst ` set ctx
            \<and> map_of (dict_update ctx (defaults ev)) (fst kv) = Some (snd kv)"
  proof
    fix kv assume kv: "kv \<in> set (defaults ev)"
    then have "fst kv \<notin> fst ` set ctx"
      using resolved_not_default [OF rc] by blast
    moreover from kv have "map_of (dict_update ctx (defaults ev)) (fst kv) = Some (snd kv)"
      by (auto simp: dict_update_lookup defaults_def)
    ultimately show "fst kv \<notin> fst ` set ctx
        \<and> map_of (dict_update ctx (defaults ev)) (fst kv) = Some (snd kv)" ..
  qed
  from kept other filled
  show "(\<forall>k \<in> fst ` set ctx. map_of (dict_update ctx (defaults ev)) k = map_of ctx k)
     \<and> (\<forall>k. k \<notin> fst ` set (defaults ev) \<longrightarrow> map_of (dict_update ctx (defaults ev)) k = map_of ctx k)
     \<and> (\<forall>kv \<in> set (defaults ev). fst kv \<notin> fst ` set ctx
            \<and> map_of (dict_update ctx (defaults ev)) (fst kv) = Some (snd kv))"
    by blast
qed

theorem C9_defaults_witness:
  "resolve_context (float_repr env_ok) row_plain (StrV ''TEMPLATE-002'') =
     Inr [(''borrower_name'', StrV ''Bo Chen''), (''loan_amount'', StrV ''N/A''),
          (''interest_rate'', StrV ''N/A''), (''loan_term'', StrV ''N/A''),
          (''monthly_payment'', StrV ''N/A''), (''annual_income'', StrV ''N/A''),
          (''credit_score'', StrV ''N/A''), (''loan_purpose'', StrV ''N/A'')]
   \<and> map_of (dict_update [(''borrower_name'', StrV ''Bo Chen''), (''loan_amount'', StrV ''N/A''),
          (''interest_rate'', StrV ''N/A''), (''loan_term'', StrV ''N/A''),
          (''monthly_payment'', StrV ''N/A''), (''annual_income'', StrV ''N/A''),
          (''credit_score'', StrV ''N/A''), (''loan_purpose'', StrV ''N/A'')] (defaults env_ok))
        ''borrower_name'' = Some (StrV ''Bo Chen'')"
proof -
  have h: "resolve_context (float_repr env_ok) row_plain (StrV ''TEMPLATE-002'') =
     Inr [(''borrower_name'', StrV ''Bo Chen''), (''loan_amount'', StrV ''N/A''),
          (''interest_rate'', StrV ''N/A''), (''loan_term'', StrV ''N/A''),
          (''monthly_payment'', StrV ''N/A''), (''annual_income'', StrV ''N/A''),
          (''credit_score'', StrV ''N/A''), (''loan_purpose'', StrV ''N/A'')]"
    by (simp add: eval_defs row_plain_def)
  from h C9_defaults_keep_resolved_fields [THEN mp, OF h] show ?thesis
    by simp
qed

text \<open>
  Claim C2 says that when the memo text is null and the document location is not,
  extraction and then generation are invoked. Generation is guarded by
  \<^verbatim>\<open>if cam_text:\<close>: when the analysis finds no form field the serialised text is
  empty, only the extraction is invoked and the sentinel is used.
\<close>

theorem C2_empty_extraction_counterexample:
  "\<not> notnull (row_get row_with_scan ''cam_content'' NoneV)
   \<and> notnull (row_get row_with_scan ''cam_s3_key'' NoneV)
   \<and> narrative env_ok row_with_scan [] =
       ([Extract bucket_name (StrV ''cams/A3.pdf'')], Inr ''Approval conditions not available.'')"
  by (simp add: run_defs eval_defs env_defs row_with_scan_def)

text \<open>
  Claim C2, amended. The narrative source of a row is selected in this order. If the
  memo text \<open>cam_content\<close> is non-null, its value is the source text, no extraction is
  invoked, and the generator is invoked on it (when it is truthy; an empty text gives
  the sentinel). Otherwise, if the document location \<open>cam_s3_key\<close> is non-null,
  extraction is invoked on it, and generation is invoked on the serialised fields exactly
  when the extraction succeeds with a non-empty text; a failed or empty extraction gives
  the sentinel without a generation call. Otherwise the approval conditions are the
  sentinel \<open>Approval conditions not available.\<close> and the row invokes neither
  extraction nor generation (the only call it can add is the rendering).
\<close>

theorem C2_narrative_source_order:
  "(notnull (row_get r ''cam_content'' NoneV) \<longrightarrow>
      narrative ev r lg =
        (if truthy (row_get r ''cam_content'' NoneV) then
           (lg @ [Generate (prompt_of ev (row_get r ''cam_content'' NoneV))],
            generate_approval_conditions ev (row_get r ''cam_content'' NoneV))
         else (lg, Inr ''Approval conditions not available.'')))
   \<and> (\<not> notnull (row_get r ''cam_content'' NoneV) \<and> notnull (row_get r ''cam_s3_key'' NoneV) \<longrightarrow>
      narrative ev r lg =
        (case extract_from_textract ev bucket_name (row_get r ''cam_s3_key'' NoneV) of
           Inl e \<Rightarrow>
             (lg @ [Extract bucket_name (row_get r ''cam_s3_key'' NoneV)],
              Inr ''Approval conditions not available.'')
         | Inr flds \<Rightarrow>
             if serialise_fields flds = [] then
               (lg @ [Extract bucket_name (row_get r ''cam_s3_key'' NoneV)],
                Inr ''Approval conditions not available.'')
             else
               (lg @ [Extract bucket_name (row_get r ''cam_s3_key'' NoneV),
                      Generate (prompt_of ev (StrV (serialise_fields flds)))],
                generate_approval_conditions ev (StrV (serialise_fields flds)))))
   \<and> (\<not> notnull (row_get r ''cam_content'' NoneV) \<and> \<not> notnull (row_get r ''cam_s3_key'' NoneV) \<longrightarrow>
      narrative ev r lg = (lg, Inr ''Approval conditions not available.'')
      \<and> (\<forall>ts n. set (fst (process_row ev ts n r lg)) \<subseteq> set lg \<union> range Render))"
proof (intro conjI impI)
  assume "notnull (row_get r ''cam_content'' NoneV)"
  then show "narrative ev r lg =
        (if truthy (row_get r ''cam_content'' NoneV) then
           (lg @ [Generate (prompt_of ev (row_get r ''cam_content'' NoneV))],
            generate_approval_conditions ev (row_get r ''cam_content'' NoneV))
         else (lg, Inr ''Approval conditions not available.''))"
    by (simp add: narrative_def cam_source_def sentinel_def)
next
  assume "\<not> notnull (row_get r ''cam_content'' NoneV) \<and> notnull (row_get r ''cam_s3_key'' NoneV)"
  then show "narrative ev r lg =
        (case extract_from_textract ev bucket_name (row_get r ''cam_s3_key'' NoneV) of
           Inl e \<Rightarrow>
             (lg @ [Extract bucket_name (row_get r ''cam_s3_key'' NoneV)],
              Inr ''Approval conditions not available.'')
         | Inr flds \<Rightarrow>
             if serialise_fields flds = [] then
               (lg @ [Extract bucket_name (row_get r ''cam_s3_key'' NoneV)],
                Inr ''Approval conditions not available.'')
             else
               (lg @ [Extract bucket_name (row_get r ''cam_s3_key'' NoneV),
                      Generate (prompt_of ev (StrV (serialise_fields flds)))],
                generate_approval_conditions ev (StrV (serialise_fields flds))))"
    by (simp add: narrative_def cam_source_def sentinel_def split: sum.splits)
next
  assume h: "\<not> notnull (row_get r ''cam_content'' NoneV) \<and> \<not> notnull (row_get r ''cam_s3_key'' NoneV)"
  then show n: "narrative ev r lg = (lg, Inr ''Approval conditions not available.'')"
    by (simp add: narrative_def cam_source_def sentinel_def)
  have "set (fst (process_row ev ts n r lg)) \<subseteq> set lg \<union> range Render" for ts n
    by (auto simp: process_row_def Let_def n split: option.splits sum.splits)
  then show "\<forall>ts n. set (fst (process_row ev ts n r lg)) \<subseteq> set lg \<union> range Render"
    by blast
qed

theorem C2_narrative_source_witness:
  "narrative env_ok row_with_memo [] =
     ([Generate (prompt_of env_ok (StrV ''Approved at 80 percent loan to value.''))],
      Inr ''Subject to appraisal.'')
   \<and> narrative env_ok row_with_scan [] =
     ([Extract bucket_name (StrV ''cams/A3.pdf'')], Inr ''Approval conditions not available.'')
   \<and> narrative env_ok row_plain [] = ([], Inr ''Approval conditions not available.'')"
proof -
  have h1: "notnull (row_get row_with_memo ''cam_content'' NoneV)"
    by (simp add: row_with_memo_def row_get_def)
  have h2: "\<not> notnull (row_get row_with_scan ''cam_content'' NoneV)
      \<and> notnull (row_get row_with_scan ''cam_s3_key'' NoneV)"
    by (simp add: row_with_scan_def row_get_def)
  have h3: "\<not> notnull (row_get row_plain ''cam_content'' NoneV)
      \<and> \<not> notnull (row_get row_plain ''cam_s3_key'' NoneV)"
    by (simp add: row_plain_def row_get_def)
  have e1: "row_get row_with_memo ''cam_content'' NoneV = StrV ''Approved at 80 percent loan to value.''"
    by (simp add: row_with_memo_def row_get_def)
  have g1: "generate_approval_conditions env_ok (StrV ''Approved at 80 percent loan to value.'')
      = Inr ''Subject to appraisal.''"
    by (simp add: generate_approval_conditions_def env_ok_def strip_def is_space_def)
  have e2: "row_get row_with_scan ''cam_s3_key'' NoneV = StrV ''cams/A3.pdf''"
    by (simp add: row_with_scan_def row_get_def)
  have x2: "extract_from_textract env_ok bucket_name (StrV ''cams/A3.pdf'') = Inr []"
    by (simp add: extract_from_textract_def env_ok_def)
  have s2: "serialise_fields [] = []"
    by (simp add: serialise_fields_def join_lines_def)
  from C2_narrative_source_order [of row_with_memo env_ok "[]", THEN conjunct1, THEN mp, OF h1]
  have a: "narrative env_ok row_with_memo [] =
     ([Generate (prompt_of env_ok (StrV ''Approved at 80 percent loan to value.''))],
      Inr ''Subject to appraisal.'')"
    by (simp add: e1 g1)
  from C2_narrative_source_order [of row_with_scan env_ok "[]", THEN conjunct2, THEN conjunct1,
      THEN mp, OF h2]
  have b: "narrative env_ok row_with_scan [] =
     ([Extract bucket_name (StrV ''cams/A3.pdf'')], Inr ''Approval conditions not available.'')"
    by (simp add: e2 x2 s2)
  from C2_narrative_source_order [of row_plain env_ok "[]", THEN conjunct2, THEN conjunct2,
      THEN mp, OF h3]
  have c: "narrative env_ok row_plain [] = ([], Inr ''Approval conditions not available.'')"
    by simp
  from a b c show ?thesis by simp
qed

text \<open>
  Claim C4 says that a row whose template id is unknown to the mapping catalog is
  skipped. The row loop skips on the template catalog (\<^verbatim>\<open>template_map.get\<close>), not on
  the mapping tables: a template \<open>TEMPLATE-004\<close> of the catalog has no mapping rules,
  and its row is rendered, with the defaults and the approval conditions only, and
  emitted.
\<close>

theorem C4_unmapped_template_counterexample:
  "mapping_of (float_repr env_ok) (resolve_template_id row_bridge) = []
   \<and> fst (process_row env_ok [bridge_loan] 0 row_bridge []) = [Render ''Bridge loan of {{ lender_name }}'']
   \<and> (case snd (process_row env_ok [bridge_loan] 0 row_bridge []) of
         Inr (Some out) \<Rightarrow> map_of out ''application_id'' = Some (StrV ''A4'') \<and>
                            map_of out ''status'' = Some (StrV ''Generated'')
       | _ \<Rightarrow> False)"
  by (simp add: run_defs eval_defs env_defs row_bridge_def)

text \<open>
  Claim C4, amended. A row whose resolved template id has no template definition in
  the template catalog is skipped entirely: no call is made for it (it is not rendered)
  and it has no output record. When the run completes, the output rows are those of
  the rows with a template definition, in order: their number is the number of input
  rows minus the number of skipped rows. (A row whose template is in the catalog but
  has no mapping rules is rendered and emitted.)
\<close>

theorem C4_rows_without_template_are_skipped:
  "(template_map_get ts (resolve_template_id r) = None \<longrightarrow>
      process_row ev ts n r lg = (lg, Inr None))
   \<and> (row_loop ev ts rs [] [] = (lg', Inr out) \<longrightarrow>
        length out = length rs
          - length (filter (\<lambda>r. template_map_get ts (resolve_template_id r) = None) rs)
        \<and> map (\<lambda>orow. map_of orow ''application_id'') out =
            map (\<lambda>r. map_of r ''application_id'')
              (filter (\<lambda>r. template_map_get ts (resolve_template_id r) \<noteq> None) rs))"
proof (intro conjI impI)
  assume "template_map_get ts (resolve_template_id r) = None"
  then show "process_row ev ts n r lg = (lg, Inr None)" by (rule process_row_skip)
next
  assume "row_loop ev ts rs [] [] = (lg', Inr out)"
  from row_loop_output [OF this]
  have m: "map (\<lambda>orow. map_of orow ''application_id'') out =
            map (\<lambda>r. map_of r ''application_id'')
              (filter (\<lambda>r. template_map_get ts (resolve_template_id r) \<noteq> None) rs)"
    by simp
  then show "map (\<lambda>orow. map_of orow ''application_id'') out =
            map (\<lambda>r. map_of r ''application_id'')
              (filter (\<lambda>r. template_map_get ts (resolve_template_id r) \<noteq> None) rs)" .
  from m have "length out =
      length (filter (\<lambda>r. template_map_get ts (resolve_template_id r) \<noteq> None) rs)"
    by (metis length_map)
  moreover have "length (filter (\<lambda>r. template_map_get ts (resolve_template_id r) \<noteq> None) rs)
      + length (filter (\<lambda>r. template_map_get ts (resolve_template_id r) = None) rs) = length rs"
    using sum_length_filter_compl [of "\<lambda>r. template_map_get ts (resolve_template_id r) \<noteq> None" rs]
    by simp
  ultimately show "length out = length rs
          - length (filter (\<lambda>r. template_map_get ts (resolve_template_id r) = None) rs)"
    by linarith
qed

theorem C4_skipped_rows_witness:
  "template_map_get [personal_loan] (resolve_template_id row_bridge) = None
   \<and> process_row env_ok [personal_loan] 0 row_bridge [] = ([], Inr None)
   \<and> (case row_loop env_ok [personal_loan] [row_bridge, row_plain] [] [] of
         (lg, Inr out) \<Rightarrow> length out = 1 \<and>
            map (\<lambda>orow. map_of orow ''application_id'') out = [Some (StrV ''A2'')]
       | _ \<Rightarrow> False)"
proof -
  have h1: "template_map_get [personal_loan] (resolve_template_id row_bridge) = None"
    by (simp add: template_map_get_def resolve_template_id_def row_bridge_def row_get_def
        personal_loan_def)
  have k: "template_map_get [personal_loan] (resolve_template_id row_plain) \<noteq> None"
    by (simp add: template_map_get_def resolve_template_id_def row_plain_def row_get_def
        personal_loan_def)
  obtain lg out where h2: "row_loop env_ok [personal_loan] [row_bridge, row_plain] [] [] = (lg, Inr out)"
    by (simp add: run_defs eval_defs env_defs row_bridge_def row_plain_def)
  have app: "map_of row_plain ''application_id'' = Some (StrV ''A2'')"
    by (simp add: row_plain_def)
  from C4_rows_without_template_are_skipped [of "[personal_loan]" row_bridge env_ok 0 "[]",
      THEN conjunct1, THEN mp, OF h1]
  have a: "process_row env_ok [personal_loan] 0 row_bridge [] = ([], Inr None)" .
  from C4_rows_without_template_are_skipped [of "[personal_loan]" row_bridge env_ok 0 "[]"
      "[row_bridge, row_plain]" lg out, THEN conjunct2, THEN mp, OF h2]
  have b: "length out = 1 \<and> map (\<lambda>orow. map_of orow ''application_id'') out = [Some (StrV ''A2'')]"
    using h1 k app by simp
  from h1 a b h2 show ?thesis by simp
qed




text \<open>
  Claim C10. When the analysis answers with a response whose key-value blocks carry
  their entity types and whose VALUE relationships name a block, the extractor returns a
  mapping with one entry for each block tagged as a key of a key-value set: the label
  and the value are the concatenated texts of the child fragments of the key block and
  of its paired value block, with surrounding white space trimmed. The labels of the
  result are distinct and are exactly the labels of the key blocks; when a label occurs
  more than once, the value of the last block with it is kept. A block without
  relationships contributes the empty label and the empty value, a block without a
  value pairing the empty value, a child without a text fragment the empty text:
  none of them fails the extraction. A failure of the analysis call is the failure of
  the extraction.
\<close>

theorem C10_extractor_builds_label_value_mapping:
  "(analyze_document ev bucket key = Inr bs \<and> well_formed_response bs \<longrightarrow>
      (\<exists>flds. extract_from_textract ev bucket key = Inr flds
         \<and> map_of flds = map_of (rev (map (entry_of bs) (filter is_key_block bs)))
         \<and> distinct (map fst flds)
         \<and> fst ` set flds = fst ` entry_of bs ` {b \<in> set bs. is_key_block b}
         \<and> (\<forall>pre b post. filter is_key_block bs = pre @ b # post
               \<and> fst (entry_of bs b) \<notin> fst ` entry_of bs ` set post
               \<longrightarrow> map_of flds (fst (entry_of bs b)) = Some (snd (entry_of bs b)))))
   \<and> (\<forall>b. entry_of bs b = (strip (children_text bs b), strip (value_text bs (paired_value_id b)))
          \<and> trimmed (fst (entry_of bs b)) \<and> trimmed (snd (entry_of bs b)))
   \<and> (\<forall>b. relationships b = None \<longrightarrow> entry_of bs b = ('''', ''''))
   \<and> (\<forall>b. paired_value_id b = None \<longrightarrow> snd (entry_of bs b) = '''')
   \<and> (\<forall>cid. (\<forall>b \<in> set bs. block_id b = cid \<longrightarrow> block_text b = None) \<longrightarrow> child_text bs cid = '''')
   \<and> (\<forall>e. analyze_document ev bucket key = Inl e \<longrightarrow> extract_from_textract ev bucket key = Inl e)"
proof -
  have a: "analyze_document ev bucket key = Inr bs \<and> well_formed_response bs \<longrightarrow>
      (\<exists>flds. extract_from_textract ev bucket key = Inr flds
         \<and> map_of flds = map_of (rev (map (entry_of bs) (filter is_key_block bs)))
         \<and> distinct (map fst flds)
         \<and> fst ` set flds = fst ` entry_of bs ` {b \<in> set bs. is_key_block b}
         \<and> (\<forall>pre b post. filter is_key_block bs = pre @ b # post
               \<and> fst (entry_of bs b) \<notin> fst ` entry_of bs ` set post
               \<longrightarrow> map_of flds (fst (entry_of bs b)) = Some (snd (entry_of bs b))))"
  proof
    assume h: "analyze_document ev bucket key = Inr bs \<and> well_formed_response bs"
    then obtain flds where f: "extract_loop bs bs [] = Inr flds"
      "map_of flds = map_of (rev (map (entry_of bs) (filter is_key_block bs)))"
      "distinct (map fst flds)"
      "fst ` set flds = fst ` entry_of bs ` {b \<in> set bs. is_key_block b}"
      using extract_loop_spec [of bs] by blast
    from h f(1) have "extract_from_textract ev bucket key = Inr flds"
      by (simp add: extract_from_textract_def)
    moreover have "\<forall>pre b post. filter is_key_block bs = pre @ b # post
               \<and> fst (entry_of bs b) \<notin> fst ` entry_of bs ` set post
               \<longrightarrow> map_of flds (fst (entry_of bs b)) = Some (snd (entry_of bs b))"
    proof (intro allI impI)
      fix pre b post
      assume "filter is_key_block bs = pre @ b # post
               \<and> fst (entry_of bs b) \<notin> fst ` entry_of bs ` set post"
      then show "map_of flds (fst (entry_of bs b)) = Some (snd (entry_of bs b))"
        using last_entry_wins [of "filter is_key_block bs" pre b post bs] f(2) by simp
    qed
    ultimately show "\<exists>flds. extract_from_textract ev bucket key = Inr flds
         \<and> map_of flds = map_of (rev (map (entry_of bs) (filter is_key_block bs)))
         \<and> distinct (map fst flds)
         \<and> fst ` set flds = fst ` entry_of bs ` {b \<in> set bs. is_key_block b}
         \<and> (\<forall>pre b post. filter is_key_block bs = pre @ b # post
               \<and> fst (entry_of bs b) \<notin> fst ` entry_of bs ` set post
               \<longrightarrow> map_of flds (fst (entry_of bs b)) = Some (snd (entry_of bs b)))"
      using f(2,3,4) by blast
  qed
  have b: "\<forall>b. entry_of bs b = (strip (children_text bs b), strip (value_text bs (paired_value_id b)))
          \<and> trimmed (fst (entry_of bs b)) \<and> trimmed (snd (entry_of bs b))"
    by (simp add: entry_of_def strip_trimmed)
  have c: "\<forall>e. analyze_document ev bucket key = Inl e \<longrightarrow> extract_from_textract ev bucket key = Inl e"
    by (simp add: extract_from_textract_def)
  have d: "\<forall>b. relationships b = None \<longrightarrow> entry_of bs b = ([], [])"
    by (simp add: entry_no_relationships)
  have e: "\<forall>b. paired_value_id b = None \<longrightarrow> snd (entry_of bs b) = []"
    by (simp add: entry_no_value)
  have f: "\<forall>cid. (\<forall>b \<in> set bs. block_id b = cid \<longrightarrow> block_text b = None) \<longrightarrow> child_text bs cid = []"
    using child_text_missing by blast
  show ?thesis
    by (rule conjI [OF a conjI [OF b conjI [OF d conjI [OF e conjI [OF f c]]]]])
qed

theorem C10_extractor_witness:
  "analyze_document env_scan bucket_name (StrV ''cams/A3.pdf'') = Inr response0
   \<and> well_formed_response response0
   \<and> (\<exists>flds. extract_from_textract env_scan bucket_name (StrV ''cams/A3.pdf'') = Inr flds
        \<and> map_of flds ''LoanAmount'' = Some ''500'' \<and> map_of flds '''' = Some ''''
        \<and> distinct (map fst flds))"
proof -
  have h: "analyze_document env_scan bucket_name (StrV ''cams/A3.pdf'') = Inr response0
      \<and> well_formed_response response0"
    by (simp add: env_scan_def env_ok_def well_formed_response_def response0_def get_rels_def)
  have e: "rev (map (entry_of response0) (filter is_key_block response0))
      = [('''', ''''), (''LoanAmount'', ''500'')]"
    by (simp add: response0_def is_key_block_def entry_of_def children_text_def get_rels_def
        child_text_def value_text_def paired_value_id_def blocks_get_def strip_def is_space_def)
  from C10_extractor_builds_label_value_mapping [of env_scan bucket_name "StrV ''cams/A3.pdf''"
      response0, THEN conjunct1, THEN mp, OF h]
  obtain flds where "extract_from_textract env_scan bucket_name (StrV ''cams/A3.pdf'') = Inr flds"
    "map_of flds = map_of (rev (map (entry_of response0) (filter is_key_block response0)))"
    "distinct (map fst flds)"
    by blast
  with e h show ?thesis
    by simp
qed

end
